theory Spec2Isabelle
  imports Complex_Main "HOL-Library.Word"
begin

section \<open>Values exchanged with the host and the providers\<close>

text \<open>
  A JavaScript number is an IEEE-754 binary64 value. The finite ones are modelled by the
  rational they denote (\<open>Fin\<close>); the two zeros are not distinguished.
\<close>

datatype number = NaN | PosInfinity | NegInfinity | Fin rat

text \<open>
  Caller-supplied metadata is an object of key/value pairs; the default \<open>{}\<close> is \<open>[]\<close>.
\<close>

type_synonym metadata = "(string \<times> string) list"

text \<open>
  A string-valued property that may be missing (\<open>undefined\<close>) is a \<open>string option\<close>.
  Truthiness of such a value: \<open>undefined\<close> and the empty string are falsy.
\<close>

definition truthy :: "string option \<Rightarrow> bool" where
  "truthy v = (case v of None \<Rightarrow> False | Some s \<Rightarrow> s \<noteq> [])"

text \<open>\<open>a || b\<close> on possibly missing strings.\<close>

definition or_else :: "string option \<Rightarrow> string option \<Rightarrow> string option" where
  "or_else a b = (if truthy a then a else b)"

subsection \<open>Decimal digits\<close>

definition digit_char :: "nat \<Rightarrow> char" where
  "digit_char d = ''0123456789'' ! d"

fun show_nat :: "nat \<Rightarrow> string" where
  "show_nat n = (if n < 10 then [digit_char n] else show_nat (n div 10) @ [digit_char (n mod 10)])"

declare show_nat.simps [simp del]

subsection \<open>Numbers: rounding to binary64\<close>

text \<open>
  Every arithmetic result and every parsed literal is the binary64 value nearest to the
  exact one, ties to the even significand: 53 significant bits, the least quantum
  \<open>2 ^ -1074\<close>, and infinity from \<open>2 ^ 1024\<close> on.
\<close>

fun bit_length :: "nat \<Rightarrow> nat" where
  "bit_length n = (if n = 0 then 0 else Suc (bit_length (n div 2)))"

declare bit_length.simps [simp del]

definition pow2 :: "int \<Rightarrow> rat" where
  "pow2 k = (if 0 \<le> k then 2 ^ nat k else 1 / 2 ^ nat (- k))"

definition pow10 :: "int \<Rightarrow> rat" where
  "pow10 k = (if 0 \<le> k then 10 ^ nat k else 1 / 10 ^ nat (- k))"

text \<open>The exponent \<open>e\<close> with \<open>2 ^ e \<le> a < 2 ^ (e + 1)\<close>, for a positive \<open>a\<close>.\<close>

definition floor_log2 :: "rat \<Rightarrow> int" where
  "floor_log2 a =
     (let d = int (bit_length (nat (fst (quotient_of a)))) - int (bit_length (nat (snd (quotient_of a))))
      in if pow2 d \<le> a then d else d - 1)"

definition round_half_even :: "rat \<Rightarrow> int" where
  "round_half_even r =
     (let f = \<lfloor>r\<rfloor>; d = r - of_int f
      in if d < 1 / 2 then f else if 1 / 2 < d then f + 1 else if even f then f else f + 1)"

definition round_double :: "rat \<Rightarrow> number" where
  "round_double x =
     (if x = 0 then Fin 0
      else
        (let a = \<bar>x\<bar>;
             q = max (floor_log2 a - 52) (- 1074);
             r = of_int (round_half_even (a / pow2 q)) * pow2 q
         in if 2 ^ 1024 \<le> r then (if x < 0 then NegInfinity else PosInfinity)
            else Fin (if x < 0 then - r else r)))"

fun negate :: "number \<Rightarrow> number" where
  "negate NaN = NaN"
| "negate PosInfinity = NegInfinity"
| "negate NegInfinity = PosInfinity"
| "negate (Fin a) = Fin (- a)"

text \<open>The operator \<open>*\<close> on two numbers.\<close>

fun multiply :: "number \<Rightarrow> number \<Rightarrow> number" where
  "multiply (Fin a) (Fin b) = round_double (a * b)"
| "multiply NaN y = NaN"
| "multiply x NaN = NaN"
| "multiply (Fin a) y = (if a = 0 then NaN else if 0 < a then y else negate y)"
| "multiply x (Fin b) = (if b = 0 then NaN else if 0 < b then x else negate x)"
| "multiply x y = (if x = y then PosInfinity else NegInfinity)"

subsection \<open>Numbers: \<open>toFixed(2)\<close>\<close>

text \<open>
  \<open>Number::toString\<close> for a finite \<open>a \<ge> 10 ^ 21\<close> (an integer \<open>A\<close> of \<open>n\<close> digits): the
  fewest digits \<open>s\<close> such that \<open>s * 10 ^ (n - k)\<close> reads back as the same number, the
  nearest such \<open>s\<close> when there are two, in exponent notation.
\<close>

definition reads_back :: "nat \<Rightarrow> nat \<Rightarrow> nat \<Rightarrow> nat \<Rightarrow> bool" where
  "reads_back A n k s = (s < 10 ^ k \<and> round_double (of_nat (s * 10 ^ (n - k))) = Fin (of_nat A))"

definition digits_of_length :: "nat \<Rightarrow> nat \<Rightarrow> nat \<Rightarrow> nat option" where
  "digits_of_length A n k =
     (let u = 10 ^ (n - k); lo = A div u; hi = lo + 1
      in if reads_back A n k lo \<and> (A - lo * u \<le> hi * u - A \<or> \<not> reads_back A n k hi) then Some lo
         else if reads_back A n k hi then Some hi
         else None)"

fun shortest_digits :: "nat \<Rightarrow> nat \<Rightarrow> nat list \<Rightarrow> nat" where
  "shortest_digits A n [] = A div 10 ^ (n - 17)"
| "shortest_digits A n (k # ks) =
     (case digits_of_length A n k of Some s \<Rightarrow> s | None \<Rightarrow> shortest_digits A n ks)"

definition to_string_large :: "rat \<Rightarrow> string" where
  "to_string_large a =
     (let A = nat \<lfloor>a\<rfloor>; n = length (show_nat A);
          ds = show_nat (shortest_digits A n [1, 2, 3, 4, 5, 6, 7, 8, 9, 10, 11, 12, 13, 14, 15, 16, 17])
      in (if length ds = 1 then ds else take 1 ds @ ''.'' @ drop 1 ds) @ ''e+'' @ show_nat (n - 1))"

text \<open>
  \<open>Number.prototype.toFixed\<close> with two fraction digits: the integer \<open>n\<close> nearest to
  \<open>100 x\<close>, the larger one of two, printed with a point before its last two digits.
\<close>

definition toFixed2 :: "number \<Rightarrow> string" where
  "toFixed2 x =
     (case x of
        NaN \<Rightarrow> ''NaN''
      | PosInfinity \<Rightarrow> ''Infinity''
      | NegInfinity \<Rightarrow> ''-Infinity''
      | Fin v \<Rightarrow>
          (let s = (if v < 0 then ''-'' else []); a = \<bar>v\<bar>
           in if 10 ^ 21 \<le> a then s @ to_string_large a
              else
                (let m = show_nat (nat \<lfloor>a * 100 + 1 / 2\<rfloor>);
                     z = (if length m \<le> 2 then replicate (3 - length m) (CHR ''0'') @ m else m)
                 in s @ take (length z - 2) z @ ''.'' @ drop (length z - 2) z)))"

subsection \<open>Numbers: \<open>parseFloat\<close>\<close>

text \<open>
  Strings are sequences of UTF-8 bytes. \<open>parseFloat\<close> drops leading white space and line
  terminators, reads the longest prefix that is a decimal literal (a sign, then
  \<open>Infinity\<close> or digits with an optional fraction and exponent) and rounds its value;
  without such a prefix the result is \<open>NaN\<close>.
\<close>

definition white_space3 :: "string list" where
  "white_space3 =
     [[CHR 0xE1, CHR 0x9A, CHR 0x80], [CHR 0xE2, CHR 0x80, CHR 0x80], [CHR 0xE2, CHR 0x80, CHR 0x81],
      [CHR 0xE2, CHR 0x80, CHR 0x82], [CHR 0xE2, CHR 0x80, CHR 0x83], [CHR 0xE2, CHR 0x80, CHR 0x84],
      [CHR 0xE2, CHR 0x80, CHR 0x85], [CHR 0xE2, CHR 0x80, CHR 0x86], [CHR 0xE2, CHR 0x80, CHR 0x87],
      [CHR 0xE2, CHR 0x80, CHR 0x88], [CHR 0xE2, CHR 0x80, CHR 0x89], [CHR 0xE2, CHR 0x80, CHR 0x8A],
      [CHR 0xE2, CHR 0x80, CHR 0xA8], [CHR 0xE2, CHR 0x80, CHR 0xA9], [CHR 0xE2, CHR 0x80, CHR 0xAF],
      [CHR 0xE2, CHR 0x81, CHR 0x9F], [CHR 0xE3, CHR 0x80, CHR 0x80], [CHR 0xEF, CHR 0xBB, CHR 0xBF]]"

fun trim_start :: "string \<Rightarrow> string" where
  "trim_start [] = []"
| "trim_start (c # cs) =
     (if c \<in> set [CHR 0x09, CHR 0x0A, CHR 0x0B, CHR 0x0C, CHR 0x0D, CHR 0x20] then trim_start cs
      else if take 2 (c # cs) = [CHR 0xC2, CHR 0xA0] then trim_start (drop 1 cs)
      else if take 3 (c # cs) \<in> set white_space3 then trim_start (drop 2 cs)
      else c # cs)"

definition is_digit :: "char \<Rightarrow> bool" where
  "is_digit c = (c \<in> set ''0123456789'')"

definition digit_val :: "char \<Rightarrow> nat" where
  "digit_val c = of_char c - 48"

definition digits_val :: "string \<Rightarrow> nat" where
  "digits_val ds = foldl (\<lambda>acc c. 10 * acc + digit_val c) 0 ds"

definition exponent_part :: "string \<Rightarrow> int" where
  "exponent_part r =
     (case r of
        [] \<Rightarrow> 0
      | c # r1 \<Rightarrow>
          if c = CHR ''e'' \<or> c = CHR ''E'' then
            (case r1 of
               [] \<Rightarrow> 0
             | d # r2 \<Rightarrow>
                 if d = CHR ''-'' then - int (digits_val (takeWhile is_digit r2))
                 else if d = CHR ''+'' then int (digits_val (takeWhile is_digit r2))
                 else int (digits_val (takeWhile is_digit r1)))
          else 0)"

definition unsigned_literal :: "string \<Rightarrow> number" where
  "unsigned_literal u =
     (if take 8 u = ''Infinity'' then PosInfinity
      else
        (let ip = takeWhile is_digit u; r1 = dropWhile is_digit u;
             dot = (r1 \<noteq> [] \<and> hd r1 = CHR ''.'');
             fp = (if dot then takeWhile is_digit (tl r1) else []);
             r2 = (if dot then dropWhile is_digit (tl r1) else r1)
         in if ip = [] \<and> fp = [] then NaN
            else round_double
                   (of_nat (digits_val (ip @ fp)) * pow10 (exponent_part r2 - int (length fp)))))"

definition parseFloat :: "string \<Rightarrow> number" where
  "parseFloat str =
     (case trim_start str of
        [] \<Rightarrow> NaN
      | c # r \<Rightarrow>
          if c = CHR ''-'' then negate (unsigned_literal r)
          else if c = CHR ''+'' then unsigned_literal r
          else unsigned_literal (c # r))"

text \<open>\<open>parseFloat\<close> of a property that may be missing: \<open>undefined\<close> reads as \<open>NaN\<close>.\<close>

definition parseFloat_opt :: "string option \<Rightarrow> number" where
  "parseFloat_opt v = (case v of None \<Rightarrow> NaN | Some s \<Rightarrow> parseFloat s)"

subsection \<open>Errors\<close>

text \<open>
  What the code can throw: \<open>new Error(msg)\<close> of a validation check, the error built by
  \<open>request\<close> for a response that is not ok (it carries the status and the parsed body,
  \<open>null\<close> for an empty body), a rejection of \<open>fetch\<close> or \<open>JSON.parse\<close>, and a
  \<open>TypeError\<close> of the runtime (a property read on \<open>null\<close> or \<open>undefined\<close>, a wrong
  argument type).
\<close>

datatype error =
    Error string
  | HttpError nat "string option"
  | FetchError string
  | TypeError string

fun message :: "error \<Rightarrow> string" where
  "message (Error m) = m"
| "message (HttpError st body) = ''http error: '' @ show_nat st"
| "message (FetchError m) = m"
| "message (TypeError m) = m"

text \<open>\<open>error.response || error.message\<close>, the value reported to \<open>onError\<close>.\<close>

fun response_or_message :: "error \<Rightarrow> string" where
  "response_or_message (HttpError st (Some body)) = (if body \<noteq> [] then body else message (HttpError st (Some body)))"
| "response_or_message e = message e"

subsection \<open>Provider responses\<close>

record token_response =
  access_token :: "string option"

record link =
  rel :: string
  href :: "string option"

record create_response =
  cr_id :: string
  cr_links :: "link list option"

record money =
  m_value :: "string option"
  m_currency_code :: "string option"

record capture =
  cap_amount :: "money option"
  cap_custom_id :: "string option"

record payments =
  captures :: "capture list option"

record purchase_unit =
  pu_custom_id :: "string option"
  pu_amount :: "money option"
  pu_payments :: "payments option"

record order_response =
  or_id :: "string option"
  or_status :: "string option"
  or_purchase_units :: "purchase_unit list option"

record subscription_response =
  sr_id :: "string option"
  sr_status :: "string option"
  sr_plan_id :: "string option"
  sr_custom_id :: "string option"

record timeline_entry =
  te_status :: "string option"

record local_price =
  lp_amount :: "string option"
  lp_currency :: "string option"

record pricing =
  pr_local :: "local_price option"

record charge =
  ch_id :: "string option"
  ch_code :: "string option"
  ch_hosted_url :: "string option"
  ch_timeline :: "timeline_entry list option"
  ch_pricing :: "pricing option"
  ch_metadata :: metadata

record charge_response =
  cr_data :: "charge option"

datatype raw =
    RawCreate create_response
  | RawOrder order_response
  | RawSubscription subscription_response
  | RawCharge charge

subsection \<open>Results and events\<close>

text \<open>
  Every operation returns a plain object; one record holds the union of their properties,
  a property the object does not have (or that is \<open>undefined\<close>) being \<open>None\<close>.
\<close>

record result =
  r_provider :: string
  r_type :: string
  r_status :: "string option"
  r_approvalUrl :: "string option"
  r_hostedUrl :: "string option"
  r_transactionId :: "string option"
  r_orderId :: "string option"
  r_subscriptionId :: "string option"
  r_planId :: "string option"
  r_customId :: "string option"
  r_chargeId :: "string option"
  r_chargeCode :: "string option"
  r_amount :: "number option"
  r_currency :: "string option"
  r_reason :: "string option"
  r_metadata :: metadata
  r_rawResponse :: "raw option"

definition new_result :: "string \<Rightarrow> string \<Rightarrow> result" where
  "new_result p t =
     \<lparr>r_provider = p, r_type = t, r_status = None, r_approvalUrl = None, r_hostedUrl = None,
      r_transactionId = None, r_orderId = None, r_subscriptionId = None, r_planId = None,
      r_customId = None, r_chargeId = None, r_chargeCode = None, r_amount = None,
      r_currency = None, r_reason = None, r_metadata = [], r_rawResponse = None\<rparr>"

text \<open>The object passed to \<open>onError\<close>: the failing operation, the provider, the id at hand.\<close>

record error_info =
  e_type :: string
  e_provider :: string
  e_id :: "string option"
  e_error :: string

datatype payload = Result result | Failure error_info

datatype event =
    onPaymentCreated
  | onPaymentCompleted
  | onPaymentFailed
  | onPaymentCancelled
  | onSubscriptionCreated
  | onSubscriptionActivated
  | onSubscriptionCancelled
  | onError

text \<open>A host callback either returns (or resolves) or throws (or rejects).\<close>

datatype cb_outcome = Returns | Throws string

section \<open>State and environment\<close>

datatype request =
    POST_oauth2_token
  | POST_orders
  | GET_order string
  | POST_capture string
  | POST_subscriptions
  | GET_subscription string
  | POST_cancel_subscription string
  | POST_charges
  | GET_charge string

text \<open>
  The mutable fields of the \<open>dSyncPay\<close> instance and of its \<open>PayPal\<close> adapter
  (\<open>metadataCache\<close>, \<open>tokenCache\<close>, \<open>tokenExpiry\<close>), the keys of the pending
  \<open>setTimeout\<close> deletions, and what an observer sees: the requests sent, the callbacks
  invoked and the lines written by \<open>console.error\<close>.
\<close>

record state =
  metadataCache :: "string \<rightharpoonup> metadata"
  tokenCache :: "string option"
  tokenExpiry :: "int option"
  timers :: "string list"
  sent :: "request list"
  invoked :: "(event \<times> payload) list"
  console :: "string list"

text \<open>What \<open>fetch\<close> does with one request.\<close>

datatype 'r fetch_result =
    Rejected string
  | NotOk nat "string option"
  | Ok "'r option"

text \<open>
  The environment of one call: the callbacks given to the constructor, \<open>Date.now()\<close> when
  the call starts, the milliseconds a credential exchange takes, the digits \<open>Math.random\<close>
  yields, and what each provider endpoint answers.
\<close>

record world =
  callbacks :: "event \<Rightarrow> (payload \<Rightarrow> cb_outcome) option"
  now :: int
  rtt :: nat
  random_digit :: "nat \<Rightarrow> nat"
  token_endpoint :: "token_response fetch_result"
  create_order_endpoint :: "create_response fetch_result"
  get_order_endpoint :: "order_response fetch_result"
  capture_endpoint :: "order_response fetch_result"
  create_subscription_endpoint :: "create_response fetch_result"
  get_subscription_endpoint :: "subscription_response fetch_result"
  cancel_subscription_endpoint :: "unit fetch_result"
  create_charge_endpoint :: "charge_response fetch_result"
  get_charge_endpoint :: "charge_response fetch_result"

section \<open>The dispatcher and the request helper\<close>

text \<open>
  \<open>emit\<close>: look the callback up; when there is one, call it inside \<open>try\<close>, and log
  what it throws.
\<close>

definition emit :: "world \<Rightarrow> event \<Rightarrow> payload \<Rightarrow> state \<Rightarrow> state" where
  "emit w ev d st =
     (case callbacks w ev of
        None \<Rightarrow> st
      | Some callback \<Rightarrow>
          (case callback d of
             Returns \<Rightarrow> st\<lparr>invoked := invoked st @ [(ev, d)]\<rparr>
           | Throws err \<Rightarrow>
               st\<lparr>invoked := invoked st @ [(ev, d)],
                  console := console st @ [''callback error: '' @ err]\<rparr>))"

text \<open>
  \<open>request\<close>: send, then throw for a response that is not ok, else return the parsed body
  (\<open>null\<close> for an empty one).
\<close>

definition request :: "request \<Rightarrow> 'r fetch_result \<Rightarrow> state \<Rightarrow> (error + 'r option) \<times> state" where
  "request rq answer st =
     (let st1 = st\<lparr>sent := sent st @ [rq]\<rparr> in
      case answer of
        Rejected m \<Rightarrow> (Inl (FetchError m), st1)
      | NotOk status body \<Rightarrow> (Inl (HttpError status body), st1)
      | Ok r \<Rightarrow> (Inr r, st1))"

section \<open>The PayPal adapter: credentials\<close>

text \<open>\<open>this.tokenExpiry > Date.now()\<close>; the initial \<open>null\<close> compares as 0.\<close>

definition expiry_after :: "int option \<Rightarrow> int \<Rightarrow> bool" where
  "expiry_after e t = (case e of None \<Rightarrow> 0 > t | Some x \<Rightarrow> x > t)"

definition auth_error :: "world \<Rightarrow> error \<Rightarrow> state \<Rightarrow> state" where
  "auth_error w err st =
     emit w onError
       (Failure \<lparr>e_type = ''auth'', e_provider = ''paypal'', e_id = None,
                 e_error = response_or_message err\<rparr>) st"

definition getAccessToken :: "world \<Rightarrow> state \<Rightarrow> (error + string option) \<times> state" where
  "getAccessToken w st =
     (if truthy (tokenCache st) \<and> expiry_after (tokenExpiry st) (now w)
      then (Inr (tokenCache st), st)
      else
        (case request POST_oauth2_token (token_endpoint w) st of
           (Inl err, st1) \<Rightarrow> (Inl err, auth_error w err st1)
         | (Inr None, st1) \<Rightarrow>
             (let err = TypeError ''Cannot read properties of null (reading access_token)''
              in (Inl err, auth_error w err st1))
         | (Inr (Some response), st1) \<Rightarrow>
             (Inr (access_token response),
              st1\<lparr>tokenCache := access_token response,
                  tokenExpiry := Some (now w + int (rtt w) + 60 * 60 * 1000)\<rparr>)))"

section \<open>The options of the creating operations\<close>

text \<open>
  The object destructured by \<open>createOrder\<close>, \<open>createCharge\<close> and \<open>createSubscription\<close>;
  \<open>None\<close> is a property left out, for which the default of the parameter list is taken.
  The description and the return and cancel URLs only go into the request body, which is
  not modelled.
\<close>

record options =
  title :: "string option"
  price :: "number option"
  quantity :: "number option"
  currency :: "string option"
  customId :: "string option"
  metadata :: "metadata option"
  planId :: "string option"

text \<open>\<open>!price\<close>: a missing price, 0 and \<open>NaN\<close> are falsy.\<close>

definition truthy_number :: "number option \<Rightarrow> bool" where
  "truthy_number v = (case v of None \<Rightarrow> False | Some NaN \<Rightarrow> False | Some (Fin x) \<Rightarrow> x \<noteq> 0 | Some _ \<Rightarrow> True)"

definition generateId :: "world \<Rightarrow> nat \<Rightarrow> string" where
  "generateId w len = map (\<lambda>i. digit_char (random_digit w i mod 10)) [0..<len]"

definition or_default :: "'a \<Rightarrow> 'a option \<Rightarrow> 'a" where
  "or_default d v = (case v of None \<Rightarrow> d | Some x \<Rightarrow> x)"

section \<open>The PayPal adapter: orders\<close>

definition report :: "world \<Rightarrow> string \<Rightarrow> string \<Rightarrow> string option \<Rightarrow> error \<Rightarrow> state \<Rightarrow> state" where
  "report w ty provider ident err st =
     emit w onError
       (Failure \<lparr>e_type = ty, e_provider = provider, e_id = ident,
                 e_error = response_or_message err\<rparr>) st"

text \<open>
  The body of the \<open>try\<close> block of \<open>createOrder\<close>, after the request has answered:
  reading \<open>links\<close> of a \<open>null\<close> body, \<open>find\<close> of missing \<open>links\<close> and \<open>href\<close> of a
  missing approve link throw a \<open>TypeError\<close>.
\<close>

definition approve_href :: "create_response option \<Rightarrow> error + string option" where
  "approve_href response =
     (case response of
        None \<Rightarrow> Inl (TypeError ''Cannot read properties of null (reading links)'')
      | Some r \<Rightarrow>
          (case cr_links r of
             None \<Rightarrow> Inl (TypeError ''Cannot read properties of undefined (reading find)'')
           | Some ls \<Rightarrow>
               (case find (\<lambda>l. rel l = ''approve'') ls of
                  None \<Rightarrow> Inl (TypeError ''Cannot read properties of undefined (reading href)'')
                | Some l \<Rightarrow> Inr (href l))))"

definition createOrder :: "world \<Rightarrow> options \<Rightarrow> state \<Rightarrow> (error + result) \<times> state" where
  "createOrder w opts st =
     (if \<not> truthy (title opts) then (Inl (Error ''missing title''), st)
      else if \<not> truthy_number (price opts) then (Inl (Error ''missing price''), st)
      else
        (case getAccessToken w st of
           (Inl err, st1) \<Rightarrow> (Inl err, st1)
         | (Inr accessToken, st1) \<Rightarrow>
             (let totalAmount = toFixed2 (multiply (the (price opts)) (or_default (Fin 1) (quantity opts)))
              in case request POST_orders (create_order_endpoint w) st1 of
                   (Inl err, st2) \<Rightarrow> (Inl err, report w ''order_creation'' ''paypal'' None err st2)
                 | (Inr response, st2) \<Rightarrow>
                     (case approve_href response of
                        Inl err \<Rightarrow> (Inl err, report w ''order_creation'' ''paypal'' None err st2)
                      | Inr approvalUrl \<Rightarrow>
                          (let res = (new_result ''paypal'' ''order'')
                                 \<lparr>r_approvalUrl := approvalUrl,
                                  r_transactionId := Some (or_default (generateId w 17) (customId opts)),
                                  r_orderId := Some (cr_id (the response)),
                                  r_amount := Some (parseFloat totalAmount),
                                  r_currency := Some (or_default ''EUR'' (currency opts)),
                                  r_metadata := or_default [] (metadata opts),
                                  r_rawResponse := Some (RawCreate (the response))\<rparr>;
                               st3 = st2\<lparr>metadataCache :=
                                          (metadataCache st2)(cr_id (the response) \<mapsto> or_default [] (metadata opts)),
                                        timers := timers st2 @ [cr_id (the response)]\<rparr>
                           in (Inr res, emit w onPaymentCreated (Result res) st3))))))"


text \<open>\<open>orderResponse.purchase_units?.[0] || {}\<close>\<close>

definition first_purchase_unit :: "order_response \<Rightarrow> purchase_unit" where
  "first_purchase_unit r =
     (case or_purchase_units r of
        Some (u # us) \<Rightarrow> u
      | _ \<Rightarrow> \<lparr>pu_custom_id = None, pu_amount = None, pu_payments = None\<rparr>)"

text \<open>\<open>purchaseUnit.payments?.captures?.[0]\<close>\<close>

definition first_capture :: "purchase_unit \<Rightarrow> capture option" where
  "first_capture u =
     (case pu_payments u of
        None \<Rightarrow> None
      | Some p \<Rightarrow> (case captures p of Some (c # cs) \<Rightarrow> Some c | _ \<Rightarrow> None))"

text \<open>\<open>purchaseUnit.amount?.value\<close> and \<open>purchaseUnit.amount?.currency_code\<close>\<close>

definition unit_value :: "purchase_unit \<Rightarrow> string option" where
  "unit_value u = (case pu_amount u of None \<Rightarrow> None | Some m \<Rightarrow> m_value m)"

definition unit_currency :: "purchase_unit \<Rightarrow> string option" where
  "unit_currency u = (case pu_amount u of None \<Rightarrow> None | Some m \<Rightarrow> m_currency_code m)"

text \<open>\<open>purchaseUnit.payments?.captures?.[0]?.amount?.currency_code\<close>\<close>

definition capture_currency :: "purchase_unit \<Rightarrow> string option" where
  "capture_currency u =
     (case first_capture u of
        None \<Rightarrow> None
      | Some c \<Rightarrow> (case cap_amount c of None \<Rightarrow> None | Some m \<Rightarrow> m_currency_code m))"

text \<open>
  The amount and the transaction id of \<open>verifyOrder\<close>: the first capture when there is
  one (reading \<open>value\<close> of a capture without \<open>amount\<close> throws), else the amount of the
  purchase unit when its value is truthy, else 0.
\<close>

definition amount_and_customId :: "purchase_unit \<Rightarrow> error + number \<times> string option" where
  "amount_and_customId u =
     (case first_capture u of
        Some c \<Rightarrow>
          (case cap_amount c of
             None \<Rightarrow> Inl (TypeError ''Cannot read properties of undefined (reading value)'')
           | Some m \<Rightarrow> Inr (parseFloat_opt (m_value m), or_else (cap_custom_id c) (pu_custom_id u)))
      | None \<Rightarrow>
          if truthy (unit_value u) then Inr (parseFloat_opt (unit_value u), pu_custom_id u)
          else Inr (Fin 0, pu_custom_id u))"

text \<open>The event of an order status.\<close>

definition order_event :: "string option \<Rightarrow> event" where
  "order_event status =
     (if status = Some ''COMPLETED'' then onPaymentCompleted
      else if status = Some ''VOIDED'' \<or> status = Some ''CANCELLED'' then onPaymentCancelled
      else onPaymentFailed)"

text \<open>
  The order read by \<open>verifyOrder\<close>: the one fetched, or the answer of the capture when the
  fetched status is \<open>APPROVED\<close>. Reading \<open>status\<close> of a \<open>null\<close> body throws.
\<close>

definition fetch_order :: "world \<Rightarrow> string \<Rightarrow> state \<Rightarrow> (error + order_response) \<times> state" where
  "fetch_order w orderId st =
     (case request (GET_order orderId) (get_order_endpoint w) st of
        (Inl err, st1) \<Rightarrow> (Inl err, st1)
      | (Inr None, st1) \<Rightarrow> (Inl (TypeError ''Cannot read properties of null (reading status)''), st1)
      | (Inr (Some orderResponse), st1) \<Rightarrow>
          if or_status orderResponse = Some ''APPROVED'' then
            (case request (POST_capture orderId) (capture_endpoint w) st1 of
               (Inl err, st2) \<Rightarrow> (Inl err, st2)
             | (Inr None, st2) \<Rightarrow>
                 (Inl (TypeError ''Cannot read properties of null (reading status)''), st2)
             | (Inr (Some captureResponse), st2) \<Rightarrow> (Inr captureResponse, st2))
          else (Inr orderResponse, st1))"

definition delete_metadata :: "string \<Rightarrow> state \<Rightarrow> state" where
  "delete_metadata key st = st\<lparr>metadataCache := (metadataCache st)(key := None)\<rparr>"

definition verifyOrder :: "world \<Rightarrow> string \<Rightarrow> state \<Rightarrow> (error + result) \<times> state" where
  "verifyOrder w orderId st =
     (case getAccessToken w st of
        (Inl err, st1) \<Rightarrow> (Inl err, st1)
      | (Inr accessToken, st1) \<Rightarrow>
          (case fetch_order w orderId st1 of
             (Inl err, st2) \<Rightarrow>
               (Inl err, delete_metadata orderId (report w ''order_verification'' ''paypal'' (Some orderId) err st2))
           | (Inr orderResponse, st2) \<Rightarrow>
               (case amount_and_customId (first_purchase_unit orderResponse) of
                  Inl err \<Rightarrow>
                    (Inl err, delete_metadata orderId (report w ''order_verification'' ''paypal'' (Some orderId) err st2))
                | Inr (amount, custom) \<Rightarrow>
                    (let purchaseUnit = first_purchase_unit orderResponse;
                         res = (new_result ''paypal'' ''order'')
                                 \<lparr>r_status := or_status orderResponse,
                                  r_transactionId := custom,
                                  r_orderId := or_id orderResponse,
                                  r_amount := Some amount,
                                  r_currency :=
                                    Some (or_default ''EUR''
                                      (if truthy (or_else (capture_currency purchaseUnit) (unit_currency purchaseUnit))
                                       then or_else (capture_currency purchaseUnit) (unit_currency purchaseUnit)
                                       else None)),
                                  r_metadata := or_default [] (metadataCache st2 orderId),
                                  r_rawResponse := Some (RawOrder orderResponse)\<rparr>
                     in (Inr res,
                         delete_metadata orderId
                           (emit w (order_event (or_status orderResponse)) (Result res) st2))))))"

section \<open>The PayPal adapter: subscriptions\<close>

definition createSubscription :: "world \<Rightarrow> options \<Rightarrow> state \<Rightarrow> (error + result) \<times> state" where
  "createSubscription w opts st =
     (if \<not> truthy (planId opts) then (Inl (Error ''missing planId''), st)
      else
        (case getAccessToken w st of
           (Inl err, st1) \<Rightarrow> (Inl err, st1)
         | (Inr accessToken, st1) \<Rightarrow>
             (case request POST_subscriptions (create_subscription_endpoint w) st1 of
                (Inl err, st2) \<Rightarrow> (Inl err, report w ''subscription_creation'' ''paypal'' None err st2)
              | (Inr response, st2) \<Rightarrow>
                  (case approve_href response of
                     Inl err \<Rightarrow> (Inl err, report w ''subscription_creation'' ''paypal'' None err st2)
                   | Inr approvalUrl \<Rightarrow>
                       (let res = (new_result ''paypal'' ''subscription'')
                              \<lparr>r_approvalUrl := approvalUrl,
                               r_transactionId := Some (or_default (generateId w 17) (customId opts)),
                               r_subscriptionId := Some (cr_id (the response)),
                               r_planId := planId opts,
                               r_metadata := or_default [] (metadata opts),
                               r_rawResponse := Some (RawCreate (the response))\<rparr>;
                            st3 = st2\<lparr>metadataCache :=
                                       (metadataCache st2)(cr_id (the response) \<mapsto> or_default [] (metadata opts)),
                                     timers := timers st2 @ [cr_id (the response)]\<rparr>
                        in (Inr res, emit w onSubscriptionCreated (Result res) st3))))))"

text \<open>The event of a subscription status, when there is one.\<close>

definition subscription_event :: "string option \<Rightarrow> event option" where
  "subscription_event status =
     (if status = Some ''ACTIVE'' then Some onSubscriptionActivated
      else if status = Some ''CANCELLED'' then Some onSubscriptionCancelled
      else None)"

definition emit_opt :: "world \<Rightarrow> event option \<Rightarrow> payload \<Rightarrow> state \<Rightarrow> state" where
  "emit_opt w ev d st = (case ev of None \<Rightarrow> st | Some e \<Rightarrow> emit w e d st)"

definition verifySubscription :: "world \<Rightarrow> string \<Rightarrow> state \<Rightarrow> (error + result) \<times> state" where
  "verifySubscription w subscriptionId st =
     (case getAccessToken w st of
        (Inl err, st1) \<Rightarrow> (Inl err, st1)
      | (Inr accessToken, st1) \<Rightarrow>
          (case request (GET_subscription subscriptionId) (get_subscription_endpoint w) st1 of
             (Inl err, st2) \<Rightarrow>
               (Inl err,
                delete_metadata subscriptionId
                  (report w ''subscription_verification'' ''paypal'' (Some subscriptionId) err st2))
           | (Inr None, st2) \<Rightarrow>
               (let err = TypeError ''Cannot read properties of null (reading status)''
                in (Inl err,
                    delete_metadata subscriptionId
                      (report w ''subscription_verification'' ''paypal'' (Some subscriptionId) err st2)))
           | (Inr (Some response), st2) \<Rightarrow>
               (let res = (new_result ''paypal'' ''subscription'')
                      \<lparr>r_status := sr_status response,
                       r_subscriptionId := sr_id response,
                       r_planId := sr_plan_id response,
                       r_customId := sr_custom_id response,
                       r_metadata := or_default [] (metadataCache st2 subscriptionId),
                       r_rawResponse := Some (RawSubscription response)\<rparr>
                in (Inr res,
                    delete_metadata subscriptionId
                      (emit_opt w (subscription_event (sr_status response)) (Result res) st2)))))"

section \<open>The Coinbase adapter\<close>

definition createCharge :: "world \<Rightarrow> options \<Rightarrow> state \<Rightarrow> (error + result) \<times> state" where
  "createCharge w opts st =
     (if \<not> truthy (title opts) then (Inl (Error ''missing title''), st)
      else if \<not> truthy_number (price opts) then (Inl (Error ''missing price''), st)
      else
        (let totalAmount = toFixed2 (multiply (the (price opts)) (or_default (Fin 1) (quantity opts)))
         in case request POST_charges (create_charge_endpoint w) st of
              (Inl err, st1) \<Rightarrow> (Inl err, report w ''charge_creation'' ''coinbase'' None err st1)
            | (Inr None, st1) \<Rightarrow>
                (let err = TypeError ''Cannot read properties of null (reading data)''
                 in (Inl err, report w ''charge_creation'' ''coinbase'' None err st1))
            | (Inr (Some response), st1) \<Rightarrow>
                (case cr_data response of
                   None \<Rightarrow>
                     (let err = TypeError ''Cannot read properties of undefined (reading hosted_url)''
                      in (Inl err, report w ''charge_creation'' ''coinbase'' None err st1))
                 | Some charge \<Rightarrow>
                     (let res = (new_result ''coinbase'' ''charge'')
                            \<lparr>r_hostedUrl := ch_hosted_url charge,
                             r_chargeId := ch_id charge,
                             r_chargeCode := ch_code charge,
                             r_amount := Some (parseFloat totalAmount),
                             r_currency := Some (or_default ''EUR'' (currency opts)),
                             r_metadata := or_default [] (metadata opts),
                             r_rawResponse := Some (RawCharge charge)\<rparr>
                      in (Inr res, emit w onPaymentCreated (Result res) st1)))))"

text \<open>
  \<open>charge.timeline[charge.timeline.length - 1]?.status\<close>: the status of the last entry,
  \<open>undefined\<close> for an empty timeline.
\<close>

definition latest_status :: "timeline_entry list \<Rightarrow> string option" where
  "latest_status timeline = (if timeline = [] then None else te_status (last timeline))"

text \<open>The event of a charge status, when there is one.\<close>

definition charge_event :: "string option \<Rightarrow> event option" where
  "charge_event status =
     (if status = Some ''COMPLETED'' then Some onPaymentCompleted
      else if status = Some ''CANCELED'' then Some onPaymentCancelled
      else if status = Some ''EXPIRED'' \<or> status = Some ''UNRESOLVED'' then Some onPaymentFailed
      else None)"

text \<open>
  What \<open>verifyCharge\<close> reads of the charge before it dispatches: the timeline and the local
  price; a missing \<open>data\<close>, \<open>timeline\<close>, \<open>pricing\<close> or \<open>local\<close> throws.
\<close>

definition read_charge :: "charge_response option \<Rightarrow> error + charge \<times> string option \<times> local_price" where
  "read_charge response =
     (case response of
        None \<Rightarrow> Inl (TypeError ''Cannot read properties of null (reading data)'')
      | Some r \<Rightarrow>
          (case cr_data r of
             None \<Rightarrow> Inl (TypeError ''Cannot read properties of undefined (reading timeline)'')
           | Some charge \<Rightarrow>
               (case ch_timeline charge of
                  None \<Rightarrow> Inl (TypeError ''Cannot read properties of undefined (reading length)'')
                | Some timeline \<Rightarrow>
                    (case ch_pricing charge of
                       None \<Rightarrow> Inl (TypeError ''Cannot read properties of undefined (reading local)'')
                     | Some p \<Rightarrow>
                         (case pr_local p of
                            None \<Rightarrow> Inl (TypeError ''Cannot read properties of undefined (reading amount)'')
                          | Some l \<Rightarrow> Inr (charge, latest_status timeline, l))))))"

definition verifyCharge :: "world \<Rightarrow> string \<Rightarrow> state \<Rightarrow> (error + result) \<times> state" where
  "verifyCharge w chargeId st =
     (case request (GET_charge chargeId) (get_charge_endpoint w) st of
        (Inl err, st1) \<Rightarrow> (Inl err, report w ''charge_verification'' ''coinbase'' (Some chargeId) err st1)
      | (Inr response, st1) \<Rightarrow>
          (case read_charge response of
             Inl err \<Rightarrow> (Inl err, report w ''charge_verification'' ''coinbase'' (Some chargeId) err st1)
           | Inr (charge, latestStatus, local) \<Rightarrow>
               (let res = (new_result ''coinbase'' ''charge'')
                      \<lparr>r_status := latestStatus,
                       r_chargeId := ch_id charge,
                       r_chargeCode := ch_code charge,
                       r_amount := Some (parseFloat_opt (lp_amount local)),
                       r_currency := lp_currency local,
                       r_metadata := ch_metadata charge,
                       r_rawResponse := Some (RawCharge charge)\<rparr>
                in (Inr res, emit_opt w (charge_event latestStatus) (Result res) st1))))"

section \<open>HMAC-SHA256, as \<open>crypto.createHmac\<close> computes it\<close>

text \<open>
  The \<open>crypto\<close> module belongs to the runtime, not to the repository. For the algorithm
  \<open>sha256\<close> it computes the HMAC of RFC 2104 over the SHA-256 of FIPS 180-4, both
  written out here on bytes and 32-bit words.
\<close>

unbundle bit_operations_syntax

type_synonym byte = "8 word"

























section \<open>The Coinbase adapter: webhook signatures\<close>

text \<open>
  \<open>verifyWebhook\<close> is called with whatever the route hands over: the payload is
  \<open>JSON.stringify(req.body)\<close> (\<open>undefined\<close> for a request without a parsed body), the
  signature is a request header (\<open>undefined\<close> when it is missing), the secret comes from
  the configuration. \<open>JObject\<close> stands for any object that is not a buffer.
\<close>

datatype jsvalue =
    JUndefined
  | JNull
  | JBoolean bool
  | JNumber number
  | JString string
  | JBuffer "byte list"
  | JObject



section \<open>Example inputs\<close>

text \<open>The fields as the constructors leave them.\<close>

definition initial_state :: state where
  "initial_state =
     \<lparr>metadataCache = Map.empty, tokenCache = None, tokenExpiry = None, timers = [],
      sent = [], invoked = [], console = []\<rparr>"

text \<open>A host without callbacks, at time 0, with every provider unreachable.\<close>

definition offline :: world where
  "offline =
     \<lparr>callbacks = (\<lambda>ev. None), now = 0, rtt = 0, random_digit = (\<lambda>i. 0),
      token_endpoint = Rejected ''fetch failed'',
      create_order_endpoint = Rejected ''fetch failed'',
      get_order_endpoint = Rejected ''fetch failed'',
      capture_endpoint = Rejected ''fetch failed'',
      create_subscription_endpoint = Rejected ''fetch failed'',
      get_subscription_endpoint = Rejected ''fetch failed'',
      cancel_subscription_endpoint = Rejected ''fetch failed'',
      create_charge_endpoint = Rejected ''fetch failed'',
      get_charge_endpoint = Rejected ''fetch failed''\<rparr>"

text \<open>The same host with a credential endpoint that grants the token \<open>A1\<close>.\<close>

definition granting :: world where
  "granting = offline\<lparr>token_endpoint := Ok (Some \<lparr>access_token = Some ''A1''\<rparr>)\<rparr>"

text \<open>A host that listens to every event, and one whose callbacks all throw.\<close>

definition listening :: "event \<Rightarrow> (payload \<Rightarrow> cb_outcome) option" where
  "listening = (\<lambda>ev. Some (\<lambda>d. Returns))"

definition throwing :: "event \<Rightarrow> (payload \<Rightarrow> cb_outcome) option" where
  "throwing = (\<lambda>ev. Some (\<lambda>d. Throws ''boom''))"

text \<open>
  A provider that creates the order \<open>ORDER-1\<close> and the subscription \<open>I-SUB1\<close>, reports the
  order as completed with one capture of 39.98 EUR, the subscription as suspended, and the
  charge as pending.
\<close>

definition approve_link :: link where
  "approve_link = \<lparr>rel = ''approve'', href = Some ''https://www.paypal.com/checkoutnow''\<rparr>"

definition completed_order :: order_response where
  "completed_order =
     \<lparr>or_id = Some ''ORDER-1'', or_status = Some ''COMPLETED'',
      or_purchase_units = Some
        [\<lparr>pu_custom_id = Some ''42'',
          pu_amount = Some \<lparr>m_value = Some ''39.98'', m_currency_code = Some ''EUR''\<rparr>,
          pu_payments = Some \<lparr>captures = Some
            [\<lparr>cap_amount = Some \<lparr>m_value = Some ''39.98'', m_currency_code = Some ''EUR''\<rparr>,
              cap_custom_id = Some ''42''\<rparr>]\<rparr>\<rparr>]\<rparr>"

definition pending_charge :: charge where
  "pending_charge =
     \<lparr>ch_id = Some ''c-1'', ch_code = Some ''CH1'', ch_hosted_url = Some ''https://commerce.coinbase.com/charges/CH1'',
      ch_timeline = Some [\<lparr>te_status = Some ''NEW''\<rparr>, \<lparr>te_status = Some ''PENDING''\<rparr>],
      ch_pricing = Some \<lparr>pr_local = Some \<lparr>lp_amount = Some ''39.98'', lp_currency = Some ''EUR''\<rparr>\<rparr>,
      ch_metadata = []\<rparr>"

definition shop :: world where
  "shop =
     granting
       \<lparr>callbacks := listening,
        create_order_endpoint := Ok (Some \<lparr>cr_id = ''ORDER-1'', cr_links = Some [approve_link]\<rparr>),
        get_order_endpoint := Ok (Some completed_order),
        create_subscription_endpoint := Ok (Some \<lparr>cr_id = ''I-SUB1'', cr_links = Some [approve_link]\<rparr>),
        get_subscription_endpoint :=
          Ok (Some \<lparr>sr_id = Some ''I-SUB1'', sr_status = Some ''SUSPENDED'', sr_plan_id = Some ''P-1'',
                    sr_custom_id = Some ''42''\<rparr>),
        create_charge_endpoint := Ok (Some \<lparr>cr_data = Some pending_charge\<rparr>),
        get_charge_endpoint := Ok (Some \<lparr>cr_data = Some pending_charge\<rparr>)\<rparr>"

text \<open>A store that holds the metadata of \<open>ORDER-1\<close>, before any token was fetched.\<close>

definition holding :: state where
  "holding = initial_state\<lparr>metadataCache := [''ORDER-1'' \<mapsto> [(''userId'', ''123'')]]\<rparr>"

text \<open>A product for 19.75, twice, under the caller's id 42.\<close>

definition widget :: options where
  "widget =
     \<lparr>title = Some ''widget'', price = Some (Fin (79 / 4)), quantity = Some (Fin 2),
      currency = None, customId = Some ''42'', metadata = Some [(''userId'', ''123'')],
      planId = Some ''P-1''\<rparr>"

text \<open>What the verifying operations return for this provider.\<close>

definition verified_order :: result where
  "verified_order =
     (new_result ''paypal'' ''order'')
       \<lparr>r_status := Some ''COMPLETED'', r_transactionId := Some ''42'', r_orderId := Some ''ORDER-1'',
        r_amount := Some (parseFloat ''39.98''), r_currency := Some ''EUR'',
        r_metadata := [(''userId'', ''123'')], r_rawResponse := Some (RawOrder completed_order)\<rparr>"

definition verified_subscription :: result where
  "verified_subscription =
     (new_result ''paypal'' ''subscription'')
       \<lparr>r_status := Some ''SUSPENDED'', r_subscriptionId := Some ''I-SUB1'', r_planId := Some ''P-1'',
        r_customId := Some ''42'',
        r_rawResponse := Some (RawSubscription
          \<lparr>sr_id = Some ''I-SUB1'', sr_status = Some ''SUSPENDED'', sr_plan_id = Some ''P-1'',
           sr_custom_id = Some ''42''\<rparr>)\<rparr>"

definition verified_charge :: result where
  "verified_charge =
     (new_result ''coinbase'' ''charge'')
       \<lparr>r_status := Some ''PENDING'', r_chargeId := Some ''c-1'', r_chargeCode := Some ''CH1'',
        r_amount := Some (parseFloat ''39.98''), r_currency := Some ''EUR'',
        r_rawResponse := Some (RawCharge pending_charge)\<rparr>"




section \<open>What each step leaves alone\<close>


lemma emit_invoked:
  "invoked (emit w ev d st) = invoked st @ (if callbacks w ev = None then [] else [(ev, d)])"
  by (simp add: emit_def split: option.splits cb_outcome.splits)



lemma request_state: "snd (request rq answer st) = st\<lparr>sent := sent st @ [rq]\<rparr>"
  by (simp add: request_def Let_def split: fetch_result.splits)

lemma request_eq: "request rq answer st = (x, st1) \<Longrightarrow> st1 = st\<lparr>sent := sent st @ [rq]\<rparr>"
  using request_state [of rq answer st] by simp


lemma getAccessToken_invoked:
  "getAccessToken w st = (Inr tok, st1) \<Longrightarrow> invoked st1 = invoked st"
  by (auto simp: getAccessToken_def request_def Let_def
      split: if_splits fetch_result.splits option.splits)

lemma fetch_order_frame:
  "metadataCache (snd (fetch_order w k st)) = metadataCache st"
  "invoked (snd (fetch_order w k st)) = invoked st"
  by (simp_all add: fetch_order_def request_def Let_def split: fetch_result.splits option.splits)

lemma delete_metadata_absent: "metadataCache (delete_metadata k st) k = None"
  by (simp add: delete_metadata_def)

lemma delete_metadata_other:
  "k' \<noteq> k \<Longrightarrow> metadataCache (delete_metadata k st) k' = metadataCache st k'"
  by (simp add: delete_metadata_def)

lemma delete_metadata_invoked: "invoked (delete_metadata k st) = invoked st"
  by (simp add: delete_metadata_def)

lemma delete_metadata_noop: "metadataCache st k = None \<Longrightarrow> delete_metadata k st = st"
  by (simp add: delete_metadata_def fun_upd_idem)

section \<open>The operations at the example inputs\<close>

lemma getAccessToken_offline:
  "getAccessToken offline holding =
     (Inl (FetchError ''fetch failed''), holding\<lparr>sent := [POST_oauth2_token]\<rparr>)"
  by (simp add: getAccessToken_def request_def auth_error_def emit_def offline_def holding_def
      initial_state_def truthy_def)

lemma getAccessToken_shop:
  "getAccessToken shop holding =
     (Inr (Some ''A1''),
      holding\<lparr>sent := [POST_oauth2_token], tokenCache := Some ''A1'', tokenExpiry := Some 3600000\<rparr>)"
  by (simp add: getAccessToken_def request_def shop_def granting_def offline_def holding_def
      initial_state_def truthy_def)

lemma fetch_order_shop:
  "fetch_order shop ''ORDER-1'' s = (Inr completed_order, s\<lparr>sent := sent s @ [GET_order ''ORDER-1'']\<rparr>)"
  by (simp add: fetch_order_def request_def shop_def completed_order_def)

lemma amount_completed_order:
  "amount_and_customId (first_purchase_unit completed_order) = Inr (parseFloat ''39.98'', Some ''42'')"
  by (simp add: amount_and_customId_def first_purchase_unit_def completed_order_def first_capture_def
      parseFloat_opt_def or_else_def truthy_def)

lemma currency_completed_order:
  "or_else (capture_currency (first_purchase_unit completed_order))
     (unit_currency (first_purchase_unit completed_order)) = Some ''EUR''"
  by (simp add: first_purchase_unit_def completed_order_def first_capture_def capture_currency_def
      unit_currency_def or_else_def truthy_def)

lemma completed_order_sel:
  "or_status completed_order = Some ''COMPLETED''" "or_id completed_order = Some ''ORDER-1''"
  by (simp_all add: completed_order_def)

lemma verifyOrder_shop:
  "verifyOrder shop ''ORDER-1'' holding =
     (Inr verified_order,
      holding\<lparr>sent := [POST_oauth2_token, GET_order ''ORDER-1''], tokenCache := Some ''A1'',
        tokenExpiry := Some 3600000, invoked := [(onPaymentCompleted, Result verified_order)],
        metadataCache := Map.empty\<rparr>)"
  unfolding verifyOrder_def getAccessToken_shop
  apply (simp add: Let_def fetch_order_shop amount_completed_order currency_completed_order
      completed_order_sel truthy_def or_default_def order_event_def)
  apply (simp add: delete_metadata_def emit_def shop_def granting_def
      listening_def verified_order_def holding_def initial_state_def new_result_def)
  done

lemma verifySubscription_shop:
  "verifySubscription shop ''I-SUB1'' holding =
     (Inr verified_subscription,
      holding\<lparr>sent := [POST_oauth2_token, GET_subscription ''I-SUB1''], tokenCache := Some ''A1'',
        tokenExpiry := Some 3600000\<rparr>)"
  unfolding verifySubscription_def getAccessToken_shop
  apply (simp add: request_def)
  apply (simp add: Let_def or_default_def delete_metadata_def emit_opt_def subscription_event_def shop_def
       verified_subscription_def holding_def initial_state_def new_result_def)
  done

lemma verifyCharge_shop:
  "verifyCharge shop ''CH1'' initial_state =
     (Inr verified_charge, initial_state\<lparr>sent := [GET_charge ''CH1'']\<rparr>)"
  unfolding verifyCharge_def
  apply (simp add: request_def)
  apply (simp add: Let_def read_charge_def latest_status_def parseFloat_opt_def emit_opt_def charge_event_def shop_def
       pending_charge_def verified_charge_def initial_state_def new_result_def)
  done






section \<open>Credential reuse\<close>

lemma getAccessToken_cached:
  "truthy (tokenCache st) \<Longrightarrow> expiry_after (tokenExpiry st) (now w) \<Longrightarrow>
   getAccessToken w st = (Inr (tokenCache st), st)"
  by (simp add: getAccessToken_def)

lemma getAccessToken_sent:
  "\<not> (truthy (tokenCache st) \<and> expiry_after (tokenExpiry st) (now w)) \<Longrightarrow>
   sent (snd (getAccessToken w st)) = sent st @ [POST_oauth2_token]"
  by (simp add: getAccessToken_def request_def auth_error_def emit_def Let_def
      split: fetch_result.splits option.splits cb_outcome.splits)

lemma getAccessToken_stores:
  "getAccessToken w st = (Inr tok, st1) \<Longrightarrow> tokenCache st1 = tok"
  by (auto simp: getAccessToken_def request_def Let_def
      split: if_splits fetch_result.splits option.splits)

lemma getAccessToken_fresh:
  assumes "\<not> expiry_after (tokenExpiry st) (now w)" and "token_endpoint w = Ok (Some r)"
  shows "getAccessToken w st =
           (Inr (access_token r),
            st\<lparr>sent := sent st @ [POST_oauth2_token], tokenCache := access_token r,
               tokenExpiry := Some (now w + int (rtt w) + 3600000)\<rparr>)"
  using assms by (simp add: getAccessToken_def request_def)

text \<open>
  C5. A call made while a token is cached and \<open>tokenExpiry\<close> is still ahead returns the
  value the earlier call returned and leaves the state, and so the list of requests sent,
  as it was. A call made when \<open>tokenExpiry\<close> has passed sends exactly one request, the
  credential exchange; when the provider grants a token, that token is returned and stored
  with an expiry one hour after the answer.
\<close>

theorem C5_credential_reuse:
  "(getAccessToken w1 st = (Inr tok, st1) \<and> truthy tok \<and> expiry_after (tokenExpiry st1) (now w2)
      \<longrightarrow> getAccessToken w2 st1 = (Inr tok, st1))
   \<and> (\<not> expiry_after (tokenExpiry st') (now w)
      \<longrightarrow> sent (snd (getAccessToken w st')) = sent st' @ [POST_oauth2_token]
          \<and> (\<forall>r. token_endpoint w = Ok (Some r) \<longrightarrow>
                 fst (getAccessToken w st') = Inr (access_token r)
                 \<and> tokenCache (snd (getAccessToken w st')) = access_token r
                 \<and> tokenExpiry (snd (getAccessToken w st')) = Some (now w + int (rtt w) + 3600000)))"
proof (intro conjI impI allI)
  assume h: "getAccessToken w1 st = (Inr tok, st1) \<and> truthy tok
             \<and> expiry_after (tokenExpiry st1) (now w2)"
  then have "tokenCache st1 = tok"
    using getAccessToken_stores by blast
  with h show "getAccessToken w2 st1 = (Inr tok, st1)"
    using getAccessToken_cached [of st1 w2] by simp
next
  assume "\<not> expiry_after (tokenExpiry st') (now w)"
  then show "sent (snd (getAccessToken w st')) = sent st' @ [POST_oauth2_token]"
    by (simp add: getAccessToken_sent)
next
  fix r
  assume h: "\<not> expiry_after (tokenExpiry st') (now w)" "token_endpoint w = Ok (Some r)"
  note eq = getAccessToken_fresh [OF h]
  show "fst (getAccessToken w st') = Inr (access_token r)"
    by (simp add: eq)
  show "tokenCache (snd (getAccessToken w st')) = access_token r"
    by (simp add: eq)
  show "tokenExpiry (snd (getAccessToken w st')) = Some (now w + int (rtt w) + 3600000)"
    by (simp add: eq)
qed

text \<open>
  The first call at time 0 exchanges credentials; a call at 3599999 ms is served from the
  cache; a call at 3600000 ms exchanges again.
\<close>

theorem C5_credential_reuse_witness:
  "getAccessToken granting initial_state =
     (Inr (Some ''A1''), snd (getAccessToken granting initial_state))
   \<and> truthy (Some ''A1'')
   \<and> expiry_after (tokenExpiry (snd (getAccessToken granting initial_state)))
         (now (offline\<lparr>now := 3599999\<rparr>))
   \<and> getAccessToken (offline\<lparr>now := 3599999\<rparr>) (snd (getAccessToken granting initial_state)) =
     (Inr (Some ''A1''), snd (getAccessToken granting initial_state))
   \<and> \<not> expiry_after (tokenExpiry (snd (getAccessToken granting initial_state)))
         (now (granting\<lparr>now := 3600000\<rparr>))
   \<and> sent (snd (getAccessToken (granting\<lparr>now := 3600000\<rparr>)
               (snd (getAccessToken granting initial_state)))) =
       [POST_oauth2_token, POST_oauth2_token]
   \<and> tokenExpiry (snd (getAccessToken (granting\<lparr>now := 3600000\<rparr>)
               (snd (getAccessToken granting initial_state)))) = Some 7200000"
proof -
  let ?s1 = "snd (getAccessToken granting initial_state)"
  have s1: "getAccessToken granting initial_state =
      (Inr (Some ''A1''),
       initial_state\<lparr>sent := [POST_oauth2_token], tokenCache := Some ''A1'',
         tokenExpiry := Some 3600000\<rparr>)"
    by (simp add: getAccessToken_def request_def granting_def offline_def initial_state_def
        truthy_def)
  have a: "getAccessToken granting initial_state = (Inr (Some ''A1''), ?s1)"
    by (simp add: s1)
  have b: "truthy (Some ''A1'')"
    by (simp add: truthy_def)
  have c: "expiry_after (tokenExpiry ?s1) (now (offline\<lparr>now := 3599999\<rparr>))"
    by (simp add: s1 expiry_after_def)
  have d: "\<not> expiry_after (tokenExpiry ?s1) (now (granting\<lparr>now := 3600000\<rparr>))"
    by (simp add: s1 expiry_after_def)
  have e: "token_endpoint (granting\<lparr>now := 3600000\<rparr>) = Ok (Some \<lparr>access_token = Some ''A1''\<rparr>)"
    by (simp add: granting_def)
  have f: "sent ?s1 = [POST_oauth2_token]"
    by (simp add: s1)
  have g: "rtt (granting\<lparr>now := 3600000\<rparr>) = 0"
    by (simp add: granting_def offline_def)
  from C5_credential_reuse [of granting initial_state "Some ''A1''" ?s1
      "offline\<lparr>now := 3599999\<rparr>" ?s1 "granting\<lparr>now := 3600000\<rparr>"] a b c d e f g
  show ?thesis by simp
qed

section \<open>Cleanup after verification\<close>

lemma verifyOrder_no_token:
  "getAccessToken w st = (Inl err, st1) \<Longrightarrow> verifyOrder w k st = (Inl err, st1)"
  by (simp add: verifyOrder_def)

lemma verifyOrder_deletes:
  "fst (getAccessToken w st) = Inr tok \<Longrightarrow> metadataCache (snd (verifyOrder w k st)) k = None"
  by (auto simp: verifyOrder_def delete_metadata_absent Let_def split: prod.splits sum.splits)

lemma verifySubscription_deletes:
  "fst (getAccessToken w st) = Inr tok \<Longrightarrow>
   metadataCache (snd (verifySubscription w k st)) k = None"
  by (auto simp: verifySubscription_def delete_metadata_absent Let_def
      split: prod.splits sum.splits option.splits)

text \<open>
  C2, as the code has it. Once the access token is at hand (cached or freshly granted),
  \<open>verifyOrder\<close> and \<open>verifySubscription\<close> end with the key of the verified id absent from
  \<open>metadataCache\<close>, whether they return a result or throw; and deleting an absent key
  changes nothing. (When the credential exchange itself fails, the call throws before its
  \<open>try\<close> block: see the counterexample.)
\<close>

theorem C2_cleanup_after_verification:
  "(fst (getAccessToken w st) = Inr tok \<longrightarrow>
      metadataCache (snd (verifyOrder w k st)) k = None
      \<and> metadataCache (snd (verifySubscription w k st)) k = None)
   \<and> (metadataCache st' k' = None \<longrightarrow> delete_metadata k' st' = st')"
  using verifyOrder_deletes verifySubscription_deletes delete_metadata_noop by blast

theorem C2_cleanup_after_verification_witness:
  "fst (getAccessToken shop holding) = Inr (Some ''A1'')
   \<and> metadataCache (snd (verifyOrder shop ''ORDER-1'' holding)) ''ORDER-1'' = None
   \<and> metadataCache (snd (verifySubscription shop ''ORDER-1'' holding)) ''ORDER-1'' = None
   \<and> metadataCache initial_state ''ORDER-1'' = None
   \<and> delete_metadata ''ORDER-1'' initial_state = initial_state"
proof -
  have a: "fst (getAccessToken shop holding) = Inr (Some ''A1'')"
    by (simp add: getAccessToken_shop)
  have b: "metadataCache initial_state ''ORDER-1'' = None"
    by (simp add: initial_state_def)
  from C2_cleanup_after_verification [of shop holding "Some ''A1''" "''ORDER-1''" initial_state "''ORDER-1''"] a b
  show ?thesis by simp
qed

text \<open>
  The claim as stated fails: with no cached token and the credential exchange failing,
  \<open>verifyOrder\<close> throws and the entry of the order is still in the store.
\<close>

theorem C2_counterexample:
  "fst (verifyOrder offline ''ORDER-1'' holding) = Inl (FetchError ''fetch failed'')
   \<and> metadataCache (snd (verifyOrder offline ''ORDER-1'' holding)) ''ORDER-1''
       = Some [(''userId'', ''123'')]"
  unfolding verifyOrder_no_token [OF getAccessToken_offline]
  by (simp add: holding_def)

section \<open>Status normalisation and dispatch\<close>

lemma verifyOrder_invoked:
  assumes "verifyOrder w k st = (Inr res, st')"
  shows "invoked st' =
           invoked st @ (if callbacks w (order_event (r_status res)) = None then []
                         else [(order_event (r_status res), Result res)])"
proof -
  obtain tok st1 where t: "getAccessToken w st = (Inr tok, st1)"
    using assms by (auto simp: verifyOrder_def split: prod.splits sum.splits)
  obtain orderResponse st2 where f: "fetch_order w k st1 = (Inr orderResponse, st2)"
    using assms t by (auto simp: verifyOrder_def split: prod.splits sum.splits)
  obtain amount custom where a: "amount_and_customId (first_purchase_unit orderResponse) = Inr (amount, custom)"
    using assms t f by (auto simp: verifyOrder_def split: prod.splits sum.splits)
  have i: "invoked st2 = invoked st"
    using getAccessToken_invoked [OF t] fetch_order_frame(2) [of w k st1] f by simp
  have s: "r_status res = or_status orderResponse"
    using assms t f a by (auto simp: verifyOrder_def Let_def)
  have "st' = delete_metadata k (emit w (order_event (or_status orderResponse)) (Result res) st2)"
    using assms t f a by (auto simp: verifyOrder_def Let_def)
  then show ?thesis
    by (simp add: delete_metadata_invoked emit_invoked i s)
qed

lemma emit_opt_invoked:
  "invoked (emit_opt w ev d st) =
     invoked st @ (case ev of None \<Rightarrow> [] | Some e \<Rightarrow> if callbacks w e = None then [] else [(e, d)])"
  by (simp add: emit_opt_def emit_invoked split: option.splits)

lemma verifySubscription_invoked:
  assumes "verifySubscription w k st = (Inr res, st')"
  shows "invoked st' =
           invoked st @ (case subscription_event (r_status res) of
                           None \<Rightarrow> []
                         | Some e \<Rightarrow> if callbacks w e = None then [] else [(e, Result res)])"
proof -
  obtain tok st1 where t: "getAccessToken w st = (Inr tok, st1)"
    using assms by (auto simp: verifySubscription_def split: prod.splits sum.splits)
  obtain response st2 where
    f: "request (GET_subscription k) (get_subscription_endpoint w) st1 = (Inr (Some response), st2)"
    using assms t by (auto simp: verifySubscription_def Let_def split: prod.splits sum.splits option.splits)
  have i: "invoked st2 = invoked st"
    using getAccessToken_invoked [OF t] request_eq [OF f] by simp
  have s: "r_status res = sr_status response"
    using assms t f by (auto simp: verifySubscription_def Let_def)
  have "st' = delete_metadata k (emit_opt w (subscription_event (sr_status response)) (Result res) st2)"
    using assms t f by (auto simp: verifySubscription_def Let_def)
  then show ?thesis
    by (simp add: delete_metadata_invoked emit_opt_invoked i s)
qed

lemma verifyCharge_invoked:
  assumes "verifyCharge w k st = (Inr res, st')"
  shows "invoked st' =
           invoked st @ (case charge_event (r_status res) of
                           None \<Rightarrow> []
                         | Some e \<Rightarrow> if callbacks w e = None then [] else [(e, Result res)])"
proof -
  obtain response st1 where
    f: "request (GET_charge k) (get_charge_endpoint w) st = (Inr response, st1)"
    using assms by (auto simp: verifyCharge_def Let_def split: prod.splits sum.splits)
  obtain charge latestStatus l where c: "read_charge response = Inr (charge, latestStatus, l)"
    using assms f by (auto simp: verifyCharge_def Let_def split: prod.splits sum.splits)
  have i: "invoked st1 = invoked st"
    using request_eq [OF f] by simp
  have s: "r_status res = latestStatus"
    using assms f c by (auto simp: verifyCharge_def Let_def)
  have "st' = emit_opt w (charge_event latestStatus) (Result res) st1"
    using assms f c by (auto simp: verifyCharge_def Let_def)
  then show ?thesis
    by (simp add: emit_opt_invoked i s)
qed

lemma order_event_cases:
  "order_event s = onPaymentCompleted \<longleftrightarrow> s = Some ''COMPLETED''"
  "order_event s = onPaymentCancelled \<longleftrightarrow> s = Some ''VOIDED'' \<or> s = Some ''CANCELLED''"
  "order_event s = onPaymentFailed \<longleftrightarrow>
     s \<noteq> Some ''COMPLETED'' \<and> s \<noteq> Some ''VOIDED'' \<and> s \<noteq> Some ''CANCELLED''"
  by (auto simp: order_event_def)

lemma subscription_event_cases:
  "subscription_event s = Some onSubscriptionActivated \<longleftrightarrow> s = Some ''ACTIVE''"
  "subscription_event s = Some onSubscriptionCancelled \<longleftrightarrow> s = Some ''CANCELLED''"
  "subscription_event s = None \<longleftrightarrow> s \<noteq> Some ''ACTIVE'' \<and> s \<noteq> Some ''CANCELLED''"
  by (auto simp: subscription_event_def)

lemma charge_event_cases:
  "charge_event s = Some onPaymentCompleted \<longleftrightarrow> s = Some ''COMPLETED''"
  "charge_event s = Some onPaymentCancelled \<longleftrightarrow> s = Some ''CANCELED''"
  "charge_event s = Some onPaymentFailed \<longleftrightarrow> s = Some ''EXPIRED'' \<or> s = Some ''UNRESOLVED''"
  "charge_event s = None \<longleftrightarrow>
     s \<noteq> Some ''COMPLETED'' \<and> s \<noteq> Some ''CANCELED'' \<and> s \<noteq> Some ''EXPIRED'' \<and> s \<noteq> Some ''UNRESOLVED''"
  by (auto simp: charge_event_def)

text \<open>
  C3, as the code has it. \<open>verifyOrder\<close> maps every raw status to exactly one of the
  events completed, cancelled and failed (failed for every status outside the table) and
  invokes the callback of that event, once, when the host registered one.
  \<open>verifySubscription\<close> and \<open>verifyCharge\<close> invoke at most one callback: the one of
  \<open>ACTIVE\<close> or \<open>CANCELLED\<close>, respectively of \<open>COMPLETED\<close>, \<open>CANCELED\<close>, \<open>EXPIRED\<close> or
  \<open>UNRESOLVED\<close>, and none for any other status.
\<close>

theorem C3_status_dispatch:
  "(verifyOrder w k st = (Inr res, st') \<longrightarrow>
      invoked st' =
        invoked st @ (if callbacks w (order_event (r_status res)) = None then []
                      else [(order_event (r_status res), Result res)]))
   \<and> (verifySubscription w2 k2 st2 = (Inr res2, st2') \<longrightarrow>
      invoked st2' =
        invoked st2 @ (case subscription_event (r_status res2) of
                        None \<Rightarrow> []
                      | Some e \<Rightarrow> if callbacks w2 e = None then [] else [(e, Result res2)]))
   \<and> (verifyCharge w3 k3 st3 = (Inr res3, st3') \<longrightarrow>
      invoked st3' =
        invoked st3 @ (case charge_event (r_status res3) of
                        None \<Rightarrow> []
                      | Some e \<Rightarrow> if callbacks w3 e = None then [] else [(e, Result res3)]))
   \<and> (order_event s = onPaymentCompleted \<longleftrightarrow> s = Some ''COMPLETED'')
   \<and> (order_event s = onPaymentCancelled \<longleftrightarrow> s = Some ''VOIDED'' \<or> s = Some ''CANCELLED'')
   \<and> (order_event s = onPaymentFailed \<longleftrightarrow>
        s \<noteq> Some ''COMPLETED'' \<and> s \<noteq> Some ''VOIDED'' \<and> s \<noteq> Some ''CANCELLED'')
   \<and> (subscription_event s = Some onSubscriptionActivated \<longleftrightarrow> s = Some ''ACTIVE'')
   \<and> (subscription_event s = Some onSubscriptionCancelled \<longleftrightarrow> s = Some ''CANCELLED'')
   \<and> (subscription_event s = None \<longleftrightarrow> s \<noteq> Some ''ACTIVE'' \<and> s \<noteq> Some ''CANCELLED'')
   \<and> (charge_event s = Some onPaymentCompleted \<longleftrightarrow> s = Some ''COMPLETED'')
   \<and> (charge_event s = Some onPaymentCancelled \<longleftrightarrow> s = Some ''CANCELED'')
   \<and> (charge_event s = Some onPaymentFailed \<longleftrightarrow> s = Some ''EXPIRED'' \<or> s = Some ''UNRESOLVED'')
   \<and> (charge_event s = None \<longleftrightarrow>
        s \<noteq> Some ''COMPLETED'' \<and> s \<noteq> Some ''CANCELED'' \<and> s \<noteq> Some ''EXPIRED''
        \<and> s \<noteq> Some ''UNRESOLVED'')"
  using verifyOrder_invoked [of w k st res st'] verifySubscription_invoked [of w2 k2 st2 res2 st2']
    verifyCharge_invoked [of w3 k3 st3 res3 st3']
    order_event_cases [of s] subscription_event_cases [of s] charge_event_cases [of s]
  by blast

text \<open>
  A completed order, a suspended subscription and a pending charge, verified for a host
  that listens to every event: one callback for the order, none for the other two.
\<close>

theorem C3_status_dispatch_witness:
  "verifyOrder shop ''ORDER-1'' holding = (Inr verified_order, snd (verifyOrder shop ''ORDER-1'' holding))
   \<and> invoked (snd (verifyOrder shop ''ORDER-1'' holding)) = [(onPaymentCompleted, Result verified_order)]
   \<and> verifySubscription shop ''I-SUB1'' holding =
       (Inr verified_subscription, snd (verifySubscription shop ''I-SUB1'' holding))
   \<and> invoked (snd (verifySubscription shop ''I-SUB1'' holding)) = []
   \<and> verifyCharge shop ''CH1'' initial_state =
       (Inr verified_charge, snd (verifyCharge shop ''CH1'' initial_state))
   \<and> invoked (snd (verifyCharge shop ''CH1'' initial_state)) = []
   \<and> order_event (Some ''PENDING_APPROVAL'') = onPaymentFailed"
proof -
  have a: "verifyOrder shop ''ORDER-1'' holding = (Inr verified_order, snd (verifyOrder shop ''ORDER-1'' holding))"
    by (simp add: verifyOrder_shop)
  have b: "verifySubscription shop ''I-SUB1'' holding =
       (Inr verified_subscription, snd (verifySubscription shop ''I-SUB1'' holding))"
    by (simp add: verifySubscription_shop)
  have c: "verifyCharge shop ''CH1'' initial_state =
       (Inr verified_charge, snd (verifyCharge shop ''CH1'' initial_state))"
    by (simp add: verifyCharge_shop)
  have d: "callbacks shop = listening" "invoked holding = []" "invoked initial_state = []"
    by (simp_all add: shop_def holding_def initial_state_def)
  have e: "r_status verified_order = Some ''COMPLETED''" "r_status verified_subscription = Some ''SUSPENDED''"
    "r_status verified_charge = Some ''PENDING''"
    by (simp_all add: verified_order_def verified_subscription_def verified_charge_def)
  have f: "listening onPaymentCompleted \<noteq> None"
    by (simp add: listening_def)
  from C3_status_dispatch [of shop "''ORDER-1''" holding verified_order "snd (verifyOrder shop ''ORDER-1'' holding)"
      shop "''I-SUB1''" holding verified_subscription "snd (verifySubscription shop ''I-SUB1'' holding)"
      shop "''CH1''" initial_state verified_charge "snd (verifyCharge shop ''CH1'' initial_state)"
      "Some ''PENDING_APPROVAL''"]
    a b c
  show ?thesis
    by (simp add: d e f order_event_def subscription_event_def charge_event_def)
qed

text \<open>
  The claim as stated fails: the verification of a charge whose last timeline status is
  \<open>PENDING\<close>, and of a subscription that is \<open>SUSPENDED\<close>, returns its result and invokes no
  callback at all, though the host registered one for every event.
\<close>

theorem C3_counterexample:
  "fst (verifyCharge shop ''CH1'' initial_state) = Inr verified_charge
   \<and> r_status verified_charge = Some ''PENDING''
   \<and> callbacks shop onPaymentFailed \<noteq> None
   \<and> invoked (snd (verifyCharge shop ''CH1'' initial_state)) = []
   \<and> fst (verifySubscription shop ''I-SUB1'' holding) = Inr verified_subscription
   \<and> r_status verified_subscription = Some ''SUSPENDED''
   \<and> invoked (snd (verifySubscription shop ''I-SUB1'' holding)) = []"
  unfolding verifyCharge_shop verifySubscription_shop
  by (simp add: verified_charge_def verified_subscription_def shop_def listening_def
      initial_state_def holding_def)

section \<open>Validation and error reporting\<close>











section \<open>Callbacks that throw\<close>

lemma emit_throwing:
  "callbacks w ev = Some cb \<Longrightarrow> cb d = Throws m \<Longrightarrow>
   emit w ev d st = st\<lparr>invoked := invoked st @ [(ev, d)], console := console st @ [''callback error: '' @ m]\<rparr>"
  by (simp add: emit_def)

text \<open>States that agree on everything but the observation of callbacks.\<close>

lemma getAccessToken_callbacks_Inr:
  "getAccessToken (w\<lparr>callbacks := c\<rparr>) st = (Inr tok, st1) \<longleftrightarrow> getAccessToken w st = (Inr tok, st1)"
  by (auto simp: getAccessToken_def request_def Let_def split: if_splits fetch_result.splits option.splits)

lemma getAccessToken_callbacks_fst:
  "fst (getAccessToken (w\<lparr>callbacks := c\<rparr>) st) = fst (getAccessToken w st)"
  by (auto simp: getAccessToken_def request_def Let_def split: if_splits fetch_result.splits option.splits)

lemma fetch_order_callbacks: "fetch_order (w\<lparr>callbacks := c\<rparr>) k st = fetch_order w k st"
  by (simp add: fetch_order_def split: prod.splits sum.splits option.splits)

lemma verifyOrder_callbacks:
  "fst (verifyOrder (w\<lparr>callbacks := c\<rparr>) k st) = fst (verifyOrder w k st)"
proof (cases "getAccessToken w st")
  case (Pair r st1)
  show ?thesis
  proof (cases r)
    case (Inl e)
    obtain st1' where "getAccessToken (w\<lparr>callbacks := c\<rparr>) st = (Inl e, st1')"
      using getAccessToken_callbacks_fst [where w = w and c = c and st = st] Pair Inl
      by (cases "getAccessToken (w\<lparr>callbacks := c\<rparr>) st") simp
    with Pair Inl show ?thesis
      by (simp add: verifyOrder_def)
  next
    case (Inr tok)
    with Pair have "getAccessToken (w\<lparr>callbacks := c\<rparr>) st = (Inr tok, st1)"
      by (simp add: getAccessToken_callbacks_Inr)
    with Pair Inr show ?thesis
      by (simp add: verifyOrder_def fetch_order_callbacks fetch_order_frame Let_def
          split: prod.splits sum.splits)
  qed
qed

lemma token_cases:
  obtains (failed) e st1 st1' where "getAccessToken w st = (Inl e, st1)"
      "getAccessToken (w\<lparr>callbacks := c\<rparr>) st = (Inl e, st1')"
  | (granted) tok st1 where "getAccessToken w st = (Inr tok, st1)"
      "getAccessToken (w\<lparr>callbacks := c\<rparr>) st = (Inr tok, st1)"
proof (cases "getAccessToken w st")
  case (Pair r st1)
  show ?thesis
  proof (cases r)
    case (Inl e)
    obtain st1' where "getAccessToken (w\<lparr>callbacks := c\<rparr>) st = (Inl e, st1')"
      using getAccessToken_callbacks_fst [where w = w and c = c and st = st] Pair Inl
      by (cases "getAccessToken (w\<lparr>callbacks := c\<rparr>) st") simp
    with Pair Inl failed show ?thesis by blast
  next
    case (Inr tok)
    with Pair have "getAccessToken (w\<lparr>callbacks := c\<rparr>) st = (Inr tok, st1)"
      by (simp add: getAccessToken_callbacks_Inr)
    with Pair Inr granted show ?thesis by blast
  qed
qed

lemma createOrder_callbacks:
  "fst (createOrder (w\<lparr>callbacks := c\<rparr>) opts st) = fst (createOrder w opts st)"
proof (cases rule: token_cases [of w st c])
  case (failed e st1 st1')
  then show ?thesis by (simp add: createOrder_def)
next
  case (granted tok st1)
  then show ?thesis
    by (simp add: createOrder_def generateId_def Let_def split: prod.splits sum.splits)
qed

lemma createSubscription_callbacks:
  "fst (createSubscription (w\<lparr>callbacks := c\<rparr>) opts st) = fst (createSubscription w opts st)"
proof (cases rule: token_cases [of w st c])
  case (failed e st1 st1')
  then show ?thesis by (simp add: createSubscription_def)
next
  case (granted tok st1)
  then show ?thesis
    by (simp add: createSubscription_def generateId_def Let_def split: prod.splits sum.splits)
qed

lemma verifySubscription_callbacks:
  "fst (verifySubscription (w\<lparr>callbacks := c\<rparr>) k st) = fst (verifySubscription w k st)"
proof (cases rule: token_cases [of w st c])
  case (failed e st1 st1')
  then show ?thesis by (simp add: verifySubscription_def)
next
  case (granted tok st1)
  then show ?thesis
    by (simp add: verifySubscription_def request_def Let_def
        split: prod.splits sum.splits option.splits fetch_result.splits)
qed

lemma createCharge_callbacks:
  "fst (createCharge (w\<lparr>callbacks := c\<rparr>) opts st) = fst (createCharge w opts st)"
  by (simp add: createCharge_def Let_def split: prod.splits sum.splits option.splits)

lemma verifyCharge_callbacks:
  "fst (verifyCharge (w\<lparr>callbacks := c\<rparr>) k st) = fst (verifyCharge w k st)"
  by (simp add: verifyCharge_def Let_def split: prod.splits sum.splits option.splits)

text \<open>
  C9. When the callback of an event throws, \<open>emit\<close> catches the exception and writes it
  to the console, and nothing but the record of the invocation and the console line
  distinguishes the state from before. What an operation returns (its result, or the error
  it throws) does not depend on the callbacks: it is the same whatever they do.
\<close>

theorem C9_callback_isolation:
  "(callbacks w ev = Some cb \<and> cb d = Throws m \<longrightarrow>
      emit w ev d st =
        st\<lparr>invoked := invoked st @ [(ev, d)], console := console st @ [''callback error: '' @ m]\<rparr>)
   \<and> fst (createOrder (w2\<lparr>callbacks := c\<rparr>) opts st2) = fst (createOrder w2 opts st2)
   \<and> fst (verifyOrder (w2\<lparr>callbacks := c\<rparr>) k st2) = fst (verifyOrder w2 k st2)
   \<and> fst (createSubscription (w2\<lparr>callbacks := c\<rparr>) opts st2) = fst (createSubscription w2 opts st2)
   \<and> fst (verifySubscription (w2\<lparr>callbacks := c\<rparr>) k st2) = fst (verifySubscription w2 k st2)
   \<and> fst (createCharge (w2\<lparr>callbacks := c\<rparr>) opts st2) = fst (createCharge w2 opts st2)
   \<and> fst (verifyCharge (w2\<lparr>callbacks := c\<rparr>) k st2) = fst (verifyCharge w2 k st2)"
  using emit_throwing [of w ev cb d m st]
  by (simp add: createOrder_callbacks verifyOrder_callbacks createSubscription_callbacks
      verifySubscription_callbacks createCharge_callbacks verifyCharge_callbacks)

text \<open>
  The completed order, verified for a host whose callbacks all throw: the result is the
  same, and the exception of \<open>onPaymentCompleted\<close> is on the console.
\<close>

theorem C9_callback_isolation_witness:
  "callbacks (shop\<lparr>callbacks := throwing\<rparr>) onPaymentCompleted = Some (\<lambda>d. Throws ''boom'')
   \<and> (\<lambda>d. Throws ''boom'') (Result verified_order) = Throws ''boom''
   \<and> emit (shop\<lparr>callbacks := throwing\<rparr>) onPaymentCompleted (Result verified_order) initial_state =
       initial_state\<lparr>invoked := [(onPaymentCompleted, Result verified_order)],
                      console := [''callback error: boom'']\<rparr>
   \<and> fst (verifyOrder (shop\<lparr>callbacks := throwing\<rparr>) ''ORDER-1'' holding) = Inr verified_order
   \<and> fst (verifyCharge (shop\<lparr>callbacks := throwing\<rparr>) ''CH1'' initial_state) = Inr verified_charge"
proof -
  have a: "callbacks (shop\<lparr>callbacks := throwing\<rparr>) onPaymentCompleted = Some (\<lambda>d. Throws ''boom'')"
    by (simp add: throwing_def)
  have b: "invoked initial_state = []" "console initial_state = []"
    by (simp_all add: initial_state_def)
  from C9_callback_isolation [where w = "shop\<lparr>callbacks := throwing\<rparr>" and ev = onPaymentCompleted
      and cb = "\<lambda>d. Throws ''boom''" and d = "Result verified_order" and m = "''boom''"
      and st = initial_state and ?w2.0 = shop and c = throwing and opts = widget and ?st2.0 = holding
      and k = "''ORDER-1''"]
    C9_callback_isolation [where w = "shop\<lparr>callbacks := throwing\<rparr>" and ev = onPaymentCompleted
      and cb = "\<lambda>d. Throws ''boom''" and d = "Result verified_order" and m = "''boom''"
      and st = initial_state and ?w2.0 = shop and c = throwing and opts = widget
      and ?st2.0 = initial_state and k = "''CH1''"]
    a b
  show ?thesis
    by (simp add: verifyOrder_shop verifyCharge_shop)
qed

section \<open>The metadata store between creation and verification\<close>









section \<open>The amount and the transaction id of a verified order\<close>







section \<open>Webhook signatures\<close>











section \<open>Malformed webhook input\<close>






end
